theory Spec2Isabelle
  imports Main
begin

section \<open>JavaScript values and built-ins used by the gateway\<close>

text \<open>
  Request and response bodies, span attributes and log fields are JavaScript values.
  Numbers are modelled as integers: the gateway only handles status codes, durations
  and parsed integers, no fractions.
\<close>

datatype js =
    JUndefined
  | JNull
  | JBool bool
  | JNum int
  | JStr string
  | JArr "js list"
  | JObj "(string \<times> js) list"

text \<open>\<^verbatim>\<open>Number.prototype.toString()\<close> on a non-negative integer: its decimal digits.\<close>

fun toString :: "nat \<Rightarrow> string" where
  "toString n =
     (if n < 10 then [''0123456789'' ! n]
      else toString (n div 10) @ [''0123456789'' ! (n mod 10)])"

declare toString.simps [simp del]

text \<open>
  \<^verbatim>\<open>parseInt(string)\<close> with no radix, after ECMAScript: leading white space is
  skipped, one sign is read, a \<^verbatim>\<open>0x\<close>/\<^verbatim>\<open>0X\<close> prefix selects radix 16 (radix 10
  otherwise), the longest prefix of digits is read, and an empty prefix gives NaN.
  The result is the mathematical integer; JavaScript rounds it to the nearest double
  (and \<^verbatim>\<open>-0\<close> is the integer 0 here), which changes neither whether it is NaN nor
  whether it is zero. Characters are the code units below 256.
\<close>

datatype jsnum = NaN | NumberValue int

definition StrWhiteSpaceChar :: "char \<Rightarrow> bool" where
  "StrWhiteSpaceChar c \<longleftrightarrow>
     of_char c \<in> set [0x09, 0x0A, 0x0B, 0x0C, 0x0D, 0x20, 0xA0 :: nat]"

definition digitValue :: "char \<Rightarrow> nat option" where
  "digitValue c =
     (let n = (of_char c :: nat) in
      if 48 \<le> n \<and> n \<le> 57 then Some (n - 48)
      else if 97 \<le> n \<and> n \<le> 122 then Some (n - 87)
      else if 65 \<le> n \<and> n \<le> 90 then Some (n - 55)
      else None)"

definition radixDigit :: "nat \<Rightarrow> char \<Rightarrow> bool" where
  "radixDigit R c = (case digitValue c of None \<Rightarrow> False | Some d \<Rightarrow> d < R)"

definition mathInt :: "nat \<Rightarrow> string \<Rightarrow> int" where
  "mathInt R Z =
     foldl (\<lambda>a c. a * int R + (case digitValue c of None \<Rightarrow> 0 | Some d \<Rightarrow> int d)) 0 Z"

definition parseInt :: "string \<Rightarrow> jsnum" where
  "parseInt inputString =
     (let S = dropWhile StrWhiteSpaceChar inputString;
          sign = (if take 1 S = ''-'' then - 1 else 1);
          S1 = (if take 1 S = ''-'' \<or> take 1 S = ''+'' then drop 1 S else S);
          hex = (take 2 S1 = ''0x'' \<or> take 2 S1 = ''0X'');
          R = (if hex then 16 else 10);
          S2 = (if hex then drop 2 S1 else S1);
          Z = takeWhile (radixDigit R) S2
      in if Z = [] then NaN else NumberValue (sign * mathInt R Z))"

text \<open>
  \<^verbatim>\<open>process.env\<close>: a variable is a string or unset (\<^verbatim>\<open>undefined\<close>).
  \<^verbatim>\<open>ToString(undefined)\<close> is the string \<^verbatim>\<open>"undefined"\<close>, which is what
  \<^verbatim>\<open>parseInt\<close> reads when the variable is unset.
\<close>

type_synonym env = "string \<rightharpoonup> string"

definition ToString :: "string option \<Rightarrow> string" where
  "ToString v = (case v of None \<Rightarrow> ''undefined'' | Some s \<Rightarrow> s)"

text \<open>\<^verbatim>\<open>process.env.X || d\<close>: unset and the empty string are falsy.\<close>

definition env_or :: "env \<Rightarrow> string \<Rightarrow> string \<Rightarrow> string" where
  "env_or e k d = (case e k of None \<Rightarrow> d | Some v \<Rightarrow> if v = [] then d else v)"

text \<open>
  \<^verbatim>\<open>parseInt(process.env.REQUEST_TIMEOUT_MS) || 10000\<close> (index.js, line 85): NaN and
  zero are falsy.
\<close>

definition request_timeout :: "env \<Rightarrow> int" where
  "request_timeout e =
     (case parseInt (ToString (e ''REQUEST_TIMEOUT_MS'')) of
        NaN \<Rightarrow> 10000
      | NumberValue n \<Rightarrow> if n = 0 then 10000 else n)"

text \<open>The table \<^verbatim>\<open>SERVICES\<close> (index.js, lines 15-21).\<close>

datatype service = claims | policy | investment | notification | chaos

fun SERVICES :: "env \<Rightarrow> service \<Rightarrow> string" where
  "SERVICES e claims = env_or e ''CLAIMS_SERVICE_URL'' ''http://localhost:3001''"
| "SERVICES e policy = env_or e ''POLICY_SERVICE_URL'' ''http://localhost:8080''"
| "SERVICES e investment = env_or e ''INVESTMENT_SERVICE_URL'' ''http://localhost:3002''"
| "SERVICES e notification = env_or e ''NOTIFICATION_SERVICE_URL'' ''http://localhost:3003''"
| "SERVICES e chaos = env_or e ''CHAOS_CONTROLLER_URL'' ''http://localhost:3004''"


section \<open>Tracing, headers and the outbound HTTP client\<close>

text \<open>
  The identifiers of the active span (\<^verbatim>\<open>span.spanContext()\<close>). The active span of a
  request is \<^verbatim>\<open>None\<close> when \<^verbatim>\<open>trace.getActiveSpan()\<close> returns \<^verbatim>\<open>undefined\<close>.
\<close>

record span_context =
  traceId :: string
  spanId :: string
  traceFlags :: nat

text \<open>
  A header object is a map from names to values. Header objects live in a store, so
  that a caller's object and the copy made by \<^verbatim>\<open>forwardRequest\<close> are different
  addresses: the store is the list of the objects allocated so far, and an address is
  an index into it.
\<close>

type_synonym headers = "string \<rightharpoonup> string"
type_synonym addr = nat
type_synonym heap = "headers list"

definition alloc :: "heap \<Rightarrow> headers \<Rightarrow> heap \<times> addr" where
  "alloc hp obj = (hp @ [obj], length hp)"

text \<open>
  Modelled from the spec: the trace header format. The propagator that the
  OpenTelemetry SDK registers is library code, not under src/; the spec has one
  recognized propagation header carrying traceId, spanId and traceFlags. The header is
  named \<^verbatim>\<open>traceparent\<close> here and its value joins the three identifiers, the flags
  as two hexadecimal digits.
\<close>

definition trace_header :: string where
  "trace_header = ''traceparent''"

definition hex2 :: "nat \<Rightarrow> string" where
  "hex2 n = [''0123456789abcdef'' ! (n div 16 mod 16), ''0123456789abcdef'' ! (n mod 16)]"

definition trace_header_value :: "span_context \<Rightarrow> string" where
  "trace_header_value c = ''00-'' @ traceId c @ ''-'' @ spanId c @ ''-'' @ hex2 (traceFlags c)"

text \<open>
  Modelled from the spec: \<^verbatim>\<open>propagation.inject\<close> of the OpenTelemetry API, which is
  library code, not under src/. The spec's Trace Context Carrier writes the context's
  identifiers into the trace header of the given header map, set or overwritten, and
  leaves every other header as it is; with no active context nothing is written.
\<close>

definition propagation_inject :: "span_context option \<Rightarrow> headers \<Rightarrow> headers" where
  "propagation_inject active carrier =
     (case active of
        None \<Rightarrow> carrier
      | Some c \<Rightarrow> carrier(trace_header \<mapsto> trace_header_value c))"

text \<open>
  What \<^verbatim>\<open>axios(config)\<close> is called with (index.js, lines 80-86) and how its promise
  settles: it resolves with a response, or rejects with an error that has a message,
  maybe a code, and maybe the response of the downstream (\<^verbatim>\<open>err.response\<close>, which
  the route handlers read). axios itself is a parameter of the model: a function from
  the configuration to the outcome. With the default \<^verbatim>\<open>validateStatus\<close>, which the
  configuration of line 80 does not replace, axios rejects every response whose status
  is outside 200..299 with an error carrying that response.
\<close>

record axios_config =
  cfg_method :: string
  cfg_url :: string
  cfg_data :: js
  cfg_headers :: headers
  cfg_timeout :: int

record axios_response =
  resp_status :: nat
  resp_data :: js

record axios_error =
  err_message :: string
  err_code :: "string option"
  err_response :: "axios_response option"

datatype axios_outcome = Resolved axios_response | Rejected axios_error

text \<open>
  A span is its name and the calls made on it, in order. \<^verbatim>\<open>tracer.startSpan\<close>
  returns a span with no call yet.
\<close>

datatype span_event =
    SetAttribute string js
  | RecordException axios_error
  | SpanEnd

record span =
  span_name :: string
  span_events :: "span_event list"

definition startSpan :: "string \<Rightarrow> span" where
  "startSpan n = \<lparr>span_name = n, span_events = []\<rparr>"

definition setAttribute :: "string \<Rightarrow> js \<Rightarrow> span \<Rightarrow> span" where
  "setAttribute k v s = s\<lparr>span_events := span_events s @ [SetAttribute k v]\<rparr>"

definition recordException :: "axios_error \<Rightarrow> span \<Rightarrow> span" where
  "recordException e s = s\<lparr>span_events := span_events s @ [RecordException e]\<rparr>"

definition span_end :: "span \<Rightarrow> span" where
  "span_end s = s\<lparr>span_events := span_events s @ [SpanEnd]\<rparr>"

definition ends :: "span \<Rightarrow> nat" where
  "ends s = length (filter (\<lambda>e. e = SpanEnd) (span_events s))"

section \<open>forwardRequest (index.js, lines 71-96)\<close>

text \<open>
  The parameter \<^verbatim>\<open>headers = {}\<close>: an omitted argument (\<^verbatim>\<open>None\<close>) allocates a
  fresh empty object. Lines 76-77 copy the object (\<^verbatim>\<open>{ ...headers }\<close>) to a new
  address and inject the trace context into the copy, in place. An address that a
  caller passes is an address of the store (\<^verbatim>\<open>a < length hp\<close>): JavaScript has no
  dangling reference.
\<close>

definition outgoingHeaders :: "span_context option \<Rightarrow> heap \<Rightarrow> addr option \<Rightarrow> heap \<times> addr" where
  "outgoingHeaders active hp hdrs =
     (let (hp1, h) = (case hdrs of None \<Rightarrow> alloc hp Map.empty | Some a \<Rightarrow> (hp, a));
          (hp2, out) = alloc hp1 (hp1 ! h)
      in (hp2[out := propagation_inject active (hp2 ! out)], out))"

definition axios_request ::
  "env \<Rightarrow> string \<Rightarrow> string \<Rightarrow> string \<Rightarrow> js \<Rightarrow> headers \<Rightarrow> axios_config" where
  "axios_request e serviceUrl path m d hs =
     \<lparr>cfg_method = m, cfg_url = serviceUrl @ path, cfg_data = d, cfg_headers = hs,
      cfg_timeout = request_timeout e\<rparr>"

text \<open>
  The result of one call: the store afterwards, the span with the calls made on it, the
  configuration axios was called with, and what the call returned (\<^verbatim>\<open>Inr\<close>, the
  response's data) or threw (\<^verbatim>\<open>Inl\<close>).
\<close>

record forward_result =
  fr_heap :: heap
  fr_span :: span
  fr_sent :: axios_config
  fr_result :: "axios_error + js"

definition forwardRequest ::
  "(axios_config \<Rightarrow> axios_outcome) \<Rightarrow> env \<Rightarrow> span_context option \<Rightarrow> heap \<Rightarrow>
   string \<Rightarrow> string \<Rightarrow> string \<Rightarrow> js \<Rightarrow> addr option \<Rightarrow> forward_result" where
  "forwardRequest axios e active hp serviceUrl path m d hdrs =
     (let sp = startSpan (''forward '' @ path);
          (hp', out) = outgoingHeaders active hp hdrs;
          config = axios_request e serviceUrl path m d (hp' ! out)
      in case axios config of
           Resolved response \<Rightarrow>
             \<lparr>fr_heap = hp',
              fr_span = span_end (setAttribute ''http.status_code'' (JNum (int (resp_status response))) sp),
              fr_sent = config,
              fr_result = Inr (resp_data response)\<rparr>
         | Rejected err \<Rightarrow>
             \<lparr>fr_heap = hp',
              fr_span = span_end (setAttribute ''error'' (JBool True) (recordException err sp)),
              fr_sent = config,
              fr_result = Inl err\<rparr>)"


text \<open>The configuration that \<^verbatim>\<open>forwardRequest\<close> calls axios with.\<close>

definition sent_config ::
  "env \<Rightarrow> span_context option \<Rightarrow> heap \<Rightarrow> string \<Rightarrow> string \<Rightarrow> string \<Rightarrow> js \<Rightarrow> addr option \<Rightarrow>
   axios_config" where
  "sent_config e active hp serviceUrl path m d hdrs =
     axios_request e serviceUrl path m d
       (fst (outgoingHeaders active hp hdrs) ! snd (outgoingHeaders active hp hdrs))"

text \<open>
  The spec's \<^verbatim>\<open>inject(context, headers)\<close> as a function on header maps: lines 76-77
  run on a store that holds the given object alone, and the copy is read back.
\<close>

definition inject :: "span_context \<Rightarrow> headers \<Rightarrow> headers" where
  "inject ctx h = (let (hp, out) = outgoingHeaders (Some ctx) [h] (Some 0) in hp ! out)"

section \<open>The logger (logger.js)\<close>

text \<open>
  A call \<^verbatim>\<open>logger.info(message, meta)\<close> (or \<^verbatim>\<open>warn\<close>, \<^verbatim>\<open>error\<close>) and the record
  (\<^verbatim>\<open>info\<close>) that the formats work on: a map from field names to values.
\<close>

record log_call =
  lc_level :: string
  lc_message :: string
  lc_meta :: "(string \<times> js) list"







section \<open>Requests, responses and the route handlers (index.js, lines 98-188)\<close>

record request =
  req_method :: string
  req_path :: string
  req_headers :: headers
  req_body :: js

text \<open>
  The response object: \<^verbatim>\<open>res.statusCode\<close> is 200 until \<^verbatim>\<open>res.status\<close> sets it, and
  \<^verbatim>\<open>res.json\<close> hands the body to \<^verbatim>\<open>res.send\<close>, which sends it with the status
  code the object has then, and sends no body (\<^verbatim>\<open>JUndefined\<close>) when that status code
  is 204 or 304.
\<close>

record response =
  statusCode :: nat
  res_body :: js

definition ServerResponse :: response where
  "ServerResponse = \<lparr>statusCode = 200, res_body = JUndefined\<rparr>"

definition res_status :: "nat \<Rightarrow> response \<Rightarrow> response" where
  "res_status code res = res\<lparr>statusCode := code\<rparr>"

definition res_json :: "js \<Rightarrow> response \<Rightarrow> response" where
  "res_json b res =
     res\<lparr>res_body := (if statusCode res = 204 \<or> statusCode res = 304 then JUndefined else b)\<rparr>"

text \<open>\<^verbatim>\<open>err.response?.status || 503\<close>: no response, and a status of 0, give 503.\<close>

definition status_or_503 :: "axios_error \<Rightarrow> nat" where
  "status_or_503 err =
     (case err_response err of
        None \<Rightarrow> 503
      | Some r \<Rightarrow> if resp_status r = 0 then 503 else resp_status r)"

text \<open>
  What a handler did: the response it sent, its log calls, the spans it created and the
  outbound calls it made, each in order.
\<close>

record handled =
  h_response :: response
  h_logs :: "log_call list"
  h_spans :: "span list"
  h_sent :: "axios_config list"

definition logger_error :: "string \<Rightarrow> (string \<times> js) list \<Rightarrow> log_call" where
  "logger_error msg meta = \<lparr>lc_level = ''error'', lc_message = msg, lc_meta = meta\<rparr>"

definition logger_warn :: "string \<Rightarrow> (string \<times> js) list \<Rightarrow> log_call" where
  "logger_warn msg meta = \<lparr>lc_level = ''warn'', lc_message = msg, lc_meta = meta\<rparr>"

definition logger_info :: "string \<Rightarrow> (string \<times> js) list \<Rightarrow> log_call" where
  "logger_info msg meta = \<lparr>lc_level = ''info'', lc_message = msg, lc_meta = meta\<rparr>"

definition js_opt :: "string option \<Rightarrow> js" where
  "js_opt v = (case v of None \<Rightarrow> JUndefined | Some s \<Rightarrow> JStr s)"

text \<open>
  Every handler calls \<^verbatim>\<open>forwardRequest\<close> without the \<^verbatim>\<open>headers\<close> argument; the store of
  header objects is empty before the call.
\<close>

definition get_health :: "string \<Rightarrow> request \<Rightarrow> response \<Rightarrow> handled" where
  "get_health isoTime req res =
     \<lparr>h_response =
        res_json (JObj [(''status'', JStr ''ok''), (''service'', JStr ''api-gateway''),
                        (''timestamp'', JStr isoTime)]) res,
      h_logs = [], h_spans = [], h_sent = []\<rparr>"

definition post_api_claims ::
  "(axios_config \<Rightarrow> axios_outcome) \<Rightarrow> env \<Rightarrow> span_context option \<Rightarrow> request \<Rightarrow> response \<Rightarrow> handled" where
  "post_api_claims axios e active req res =
     (let l = logger_info ''Forwarding claim submission'' [(''body'', req_body req)];
          fr = forwardRequest axios e active [] (SERVICES e claims) ''/claims'' ''POST'' (req_body req) None
      in case fr_result fr of
           Inr result \<Rightarrow>
             \<lparr>h_response = res_json result res,
              h_logs = [l], h_spans = [fr_span fr], h_sent = [fr_sent fr]\<rparr>
         | Inl err \<Rightarrow>
             \<lparr>h_response =
                res_json (JObj [(''error'', JStr ''Claims service unavailable''),
                                (''details'', JStr (err_message err))])
                  (res_status (status_or_503 err) res),
              h_logs = [l, logger_error ''Claims service error''
                             [(''error'', JStr (err_message err)), (''code'', js_opt (err_code err))]],
              h_spans = [fr_span fr], h_sent = [fr_sent fr]\<rparr>)"

text \<open>
  The five \<^verbatim>\<open>GET\<close> handlers of lines 118-168 differ in the service, the path, the log
  message and the error text only; \<^verbatim>\<open>get_forward\<close> is their common body.
\<close>

definition get_forward ::
  "service \<Rightarrow> string \<Rightarrow> string \<Rightarrow> string \<Rightarrow>
   (axios_config \<Rightarrow> axios_outcome) \<Rightarrow> env \<Rightarrow> span_context option \<Rightarrow> request \<Rightarrow> response \<Rightarrow> handled" where
  "get_forward svc path logmsg errtext axios e active req res =
     (let fr = forwardRequest axios e active [] (SERVICES e svc) path ''GET'' JNull None
      in case fr_result fr of
           Inr result \<Rightarrow>
             \<lparr>h_response = res_json result res,
              h_logs = [], h_spans = [fr_span fr], h_sent = [fr_sent fr]\<rparr>
         | Inl err \<Rightarrow>
             \<lparr>h_response =
                res_json (JObj [(''error'', JStr errtext)]) (res_status (status_or_503 err) res),
              h_logs = [logger_error logmsg [(''error'', JStr (err_message err))]],
              h_spans = [fr_span fr], h_sent = [fr_sent fr]\<rparr>)"

definition get_api_claims_id ::
  "string \<Rightarrow> (axios_config \<Rightarrow> axios_outcome) \<Rightarrow> env \<Rightarrow> span_context option \<Rightarrow> request \<Rightarrow> response \<Rightarrow> handled" where
  "get_api_claims_id ident =
     get_forward claims (''/claims/'' @ ident) ''Claims fetch error'' ''Claims service unavailable''"

definition get_api_claims ::
  "(axios_config \<Rightarrow> axios_outcome) \<Rightarrow> env \<Rightarrow> span_context option \<Rightarrow> request \<Rightarrow> response \<Rightarrow> handled" where
  "get_api_claims =
     get_forward claims ''/claims'' ''Claims list error'' ''Claims service unavailable''"

definition get_api_policy ::
  "string \<Rightarrow> (axios_config \<Rightarrow> axios_outcome) \<Rightarrow> env \<Rightarrow> span_context option \<Rightarrow> request \<Rightarrow> response \<Rightarrow> handled" where
  "get_api_policy customerId =
     get_forward policy (''/policy/'' @ customerId) ''Policy service error'' ''Policy service unavailable''"

definition get_api_policy_coverage ::
  "string \<Rightarrow> (axios_config \<Rightarrow> axios_outcome) \<Rightarrow> env \<Rightarrow> span_context option \<Rightarrow> request \<Rightarrow> response \<Rightarrow> handled" where
  "get_api_policy_coverage customerId =
     get_forward policy (''/policy/'' @ customerId @ ''/coverage'') ''Coverage fetch error''
       ''Policy service unavailable''"

definition get_api_investments ::
  "string \<Rightarrow> (axios_config \<Rightarrow> axios_outcome) \<Rightarrow> env \<Rightarrow> span_context option \<Rightarrow> request \<Rightarrow> response \<Rightarrow> handled" where
  "get_api_investments customerId =
     get_forward investment (''/investments/'' @ customerId) ''Investment service error''
       ''Investment service unavailable''"

definition get_api_chaos_status ::
  "(axios_config \<Rightarrow> axios_outcome) \<Rightarrow> env \<Rightarrow> span_context option \<Rightarrow> request \<Rightarrow> response \<Rightarrow> handled" where
  "get_api_chaos_status axios e active req res =
     (let fr = forwardRequest axios e active [] (SERVICES e chaos) ''/chaos/status'' ''GET'' JNull None
      in case fr_result fr of
           Inr result \<Rightarrow>
             \<lparr>h_response = res_json result res,
              h_logs = [], h_spans = [fr_span fr], h_sent = [fr_sent fr]\<rparr>
         | Inl err \<Rightarrow>
             \<lparr>h_response =
                res_json (JObj [(''error'', JStr ''Chaos controller unavailable'')]) (res_status 503 res),
              h_logs = [], h_spans = [fr_span fr], h_sent = [fr_sent fr]\<rparr>)"

definition post_api_chaos_toggle ::
  "(axios_config \<Rightarrow> axios_outcome) \<Rightarrow> env \<Rightarrow> span_context option \<Rightarrow> request \<Rightarrow> response \<Rightarrow> handled" where
  "post_api_chaos_toggle axios e active req res =
     (let fr = forwardRequest axios e active [] (SERVICES e chaos) ''/chaos/toggle'' ''POST'' (req_body req) None
      in case fr_result fr of
           Inr result \<Rightarrow>
             \<lparr>h_response = res_json result res,
              h_logs = [logger_warn ''Chaos toggle activated'' [(''toggle'', req_body req)]],
              h_spans = [fr_span fr], h_sent = [fr_sent fr]\<rparr>
         | Inl err \<Rightarrow>
             \<lparr>h_response =
                res_json (JObj [(''error'', JStr ''Chaos controller unavailable'')]) (res_status 503 res),
              h_logs = [], h_spans = [fr_span fr], h_sent = [fr_sent fr]\<rparr>)"

text \<open>
  The handler Express dispatches a request to, with the route parameter it extracted.
  Matching the method and the path against the registered patterns is Express's.
\<close>

datatype route =
    Health
  | PostClaims
  | GetClaimById string
  | GetClaims
  | GetPolicy string
  | GetCoverage string
  | GetInvestments string
  | ChaosStatus
  | ChaosToggle

fun dispatch ::
  "(axios_config \<Rightarrow> axios_outcome) \<Rightarrow> env \<Rightarrow> span_context option \<Rightarrow> string \<Rightarrow> route \<Rightarrow>
   request \<Rightarrow> response \<Rightarrow> handled" where
  "dispatch axios e active isoTime Health = get_health isoTime"
| "dispatch axios e active isoTime PostClaims = post_api_claims axios e active"
| "dispatch axios e active isoTime (GetClaimById ident) = get_api_claims_id ident axios e active"
| "dispatch axios e active isoTime GetClaims = get_api_claims axios e active"
| "dispatch axios e active isoTime (GetPolicy c) = get_api_policy c axios e active"
| "dispatch axios e active isoTime (GetCoverage c) = get_api_policy_coverage c axios e active"
| "dispatch axios e active isoTime (GetInvestments c) = get_api_investments c axios e active"
| "dispatch axios e active isoTime ChaosStatus = get_api_chaos_status axios e active"
| "dispatch axios e active isoTime ChaosToggle = post_api_chaos_toggle axios e active"

section \<open>The metrics middleware (index.js, lines 23-68)\<close>

datatype instrument = requestCounter | errorCounter | requestDuration

record labels =
  lbl_method :: string
  lbl_route :: string
  lbl_status :: string

datatype metric_event =
    CounterAdd instrument int labels
  | HistogramRecord instrument int labels

fun event_instrument :: "metric_event \<Rightarrow> instrument" where
  "event_instrument (CounterAdd i v l) = i"
| "event_instrument (HistogramRecord i v l) = i"

fun event_labels :: "metric_event \<Rightarrow> labels" where
  "event_labels (CounterAdd i v l) = l"
| "event_labels (HistogramRecord i v l) = l"

definition emissions :: "instrument \<Rightarrow> metric_event list \<Rightarrow> nat" where
  "emissions i ms = length (filter (\<lambda>m. event_instrument m = i) ms)"

text \<open>
  The listener of \<^verbatim>\<open>res.on('finish')\<close> (lines 52-65): \<^verbatim>\<open>start\<close> and \<^verbatim>\<open>now\<close> are the
  two readings of \<^verbatim>\<open>Date.now()\<close>, \<^verbatim>\<open>res\<close> is the response as sent.
\<close>

definition on_finish :: "int \<Rightarrow> int \<Rightarrow> request \<Rightarrow> response \<Rightarrow> metric_event list \<times> log_call" where
  "on_finish start now req res =
     (let duration = now - start;
          lbls = \<lparr>lbl_method = req_method req, lbl_route = req_path req,
                  lbl_status = toString (statusCode res)\<rparr>
      in ([CounterAdd requestCounter 1 lbls, HistogramRecord requestDuration duration lbls]
            @ (if statusCode res \<ge> 400 then [CounterAdd errorCounter 1 lbls] else []),
          logger_info ''Request completed''
            [(''method'', JStr (req_method req)), (''path'', JStr (req_path req)),
             (''statusCode'', JNum (int (statusCode res))), (''durationMs'', JNum duration)]))"

text \<open>
  What the gateway did for one request: the response sent to the client, the log calls,
  the metric emissions, the spans of the forward calls, the outbound calls, and the
  attributes set on the active span of the request.
\<close>

record gateway_result =
  gw_response :: response
  gw_logs :: "log_call list"
  gw_metrics :: "metric_event list"
  gw_spans :: "span list"
  gw_sent :: "axios_config list"
  gw_active_attributes :: "(string \<times> js) list"

text \<open>
  The middleware (lines 37-68) around the rest of the chain, \<^verbatim>\<open>nxt\<close>: the listener
  runs when the response that \<^verbatim>\<open>nxt\<close> produced has been sent. The middleware is
  registered after \<^verbatim>\<open>cors()\<close> and \<^verbatim>\<open>express.json()\<close> (lines 11-12), which
  \<^verbatim>\<open>app\<close> below puts in front of it.
\<close>

definition metrics_middleware ::
  "span_context option \<Rightarrow> int \<Rightarrow> int \<Rightarrow> request \<Rightarrow> response \<Rightarrow>
   (request \<Rightarrow> response \<Rightarrow> handled) \<Rightarrow> gateway_result" where
  "metrics_middleware active start now req res nxt =
     (let attrs = (case active of
                     None \<Rightarrow> []
                   | Some sc \<Rightarrow> [(''http.route'', JStr (req_path req)),
                                (''gateway.version'', JStr ''1.0.0'')]);
          incoming = logger_info ''Incoming request''
                       [(''method'', JStr (req_method req)), (''path'', JStr (req_path req)),
                        (''userAgent'', js_opt (req_headers req ''user-agent''))];
          h = nxt req res;
          (ms, completed) = on_finish start now req (h_response h)
      in \<lparr>gw_response = h_response h,
          gw_logs = incoming # h_logs h @ [completed],
          gw_metrics = ms,
          gw_spans = h_spans h,
          gw_sent = h_sent h,
          gw_active_attributes = attrs\<rparr>)"

definition gateway ::
  "(axios_config \<Rightarrow> axios_outcome) \<Rightarrow> env \<Rightarrow> span_context option \<Rightarrow> int \<Rightarrow> int \<Rightarrow> string \<Rightarrow>
   route \<Rightarrow> request \<Rightarrow> gateway_result" where
  "gateway axios e active start now isoTime r req =
     metrics_middleware active start now req ServerResponse (dispatch axios e active isoTime r)"


section \<open>The application: the middleware chain (index.js, lines 10-12 and 37)\<close>

text \<open>
  \<^verbatim>\<open>app.use(cors())\<close> and \<^verbatim>\<open>app.use(express.json())\<close> are registered before the
  metrics middleware. \<^verbatim>\<open>cors()\<close> answers a request of method \<^verbatim>\<open>OPTIONS\<close> itself,
  with status 204, and does not call the next middleware. \<^verbatim>\<open>express.json()\<close> either
  sets \<^verbatim>\<open>req.body\<close> to the parsed body or passes an error with a status (400 for
  malformed JSON) to Express, which skips the remaining middleware and the routes and
  answers with that status. An inbound request is the request with what
  \<^verbatim>\<open>express.json()\<close> makes of its body.
\<close>

datatype body_outcome = BodyParsed js | BodyRejected nat

record inbound =
  in_method :: string
  in_path :: string
  in_headers :: headers
  in_body :: body_outcome

datatype app_outcome =
    AnsweredByCors
  | RejectedByJson nat
  | Handled gateway_result

definition app ::
  "(axios_config \<Rightarrow> axios_outcome) \<Rightarrow> env \<Rightarrow> span_context option \<Rightarrow> int \<Rightarrow> int \<Rightarrow> string \<Rightarrow>
   route \<Rightarrow> inbound \<Rightarrow> app_outcome" where
  "app axios e active start now isoTime r i =
     (if in_method i = ''OPTIONS'' then AnsweredByCors
      else case in_body i of
             BodyRejected code \<Rightarrow> RejectedByJson code
           | BodyParsed b \<Rightarrow>
               Handled (gateway axios e active start now isoTime r
                 \<lparr>req_method = in_method i, req_path = in_path i, req_headers = in_headers i,
                  req_body = b\<rparr>))"

text \<open>The status code of the response the client gets, and the metric emissions made.\<close>

fun outcome_status :: "app_outcome \<Rightarrow> nat" where
  "outcome_status AnsweredByCors = 204"
| "outcome_status (RejectedByJson code) = code"
| "outcome_status (Handled g) = statusCode (gw_response g)"

fun outcome_metrics :: "app_outcome \<Rightarrow> metric_event list" where
  "outcome_metrics AnsweredByCors = []"
| "outcome_metrics (RejectedByJson code) = []"
| "outcome_metrics (Handled g) = gw_metrics g"

section \<open>Inputs of the spec's scenarios\<close>

definition claim_request :: request where
  "claim_request =
     \<lparr>req_method = ''POST'', req_path = ''/api/claims'', req_headers = Map.empty,
      req_body = JObj [(''policyId'', JStr ''P1''), (''amount'', JNum 500)]\<rparr>"

definition get_request :: "string \<Rightarrow> request" where
  "get_request p =
     \<lparr>req_method = ''GET'', req_path = p, req_headers = Map.empty, req_body = JUndefined\<rparr>"

definition created_C9 :: axios_response where
  "created_C9 = \<lparr>resp_status = 201, resp_data = JObj [(''claimId'', JStr ''C9'')]\<rparr>"

text \<open>What axios rejects with when the downstream answers 404 or 500 with a JSON body.\<close>

definition not_found_404 :: axios_error where
  "not_found_404 =
     \<lparr>err_message = ''Request failed with status code 404'',
      err_code = Some ''ERR_BAD_REQUEST'',
      err_response = Some \<lparr>resp_status = 404, resp_data = JObj [(''error'', JStr ''not found'')]\<rparr>\<rparr>"

definition server_error_500 :: axios_error where
  "server_error_500 =
     \<lparr>err_message = ''Request failed with status code 500'',
      err_code = Some ''ERR_BAD_RESPONSE'',
      err_response = Some \<lparr>resp_status = 500, resp_data = JObj [(''error'', JStr ''boom'')]\<rparr>\<rparr>"

definition example_context :: span_context where
  "example_context =
     \<lparr>traceId = ''0af7651916cd43dd8448eb211c80319c'', spanId = ''b7ad6b7169203331'',
      traceFlags = 1\<rparr>"

text \<open>
  \<^verbatim>\<open>POST /api/claims\<close> with \<^verbatim>\<open>Content-Type: application/json\<close> and a body that is not
  JSON (\<^verbatim>\<open>{bad\<close>): \<^verbatim>\<open>express.json()\<close> rejects it with status 400.
\<close>

definition malformed_claim :: inbound where
  "malformed_claim =
     \<lparr>in_method = ''POST'', in_path = ''/api/claims'',
      in_headers = [''content-type'' \<mapsto> ''application/json''],
      in_body = BodyRejected 400\<rparr>"



definition accept_json :: headers where
  "accept_json = [''accept'' \<mapsto> ''application/json'']"

section \<open>Basic facts\<close>

lemma outgoingHeaders_eq:
  "outgoingHeaders active hp hdrs =
     (case hdrs of
        None \<Rightarrow> (hp @ [Map.empty, propagation_inject active Map.empty], Suc (length hp))
      | Some a \<Rightarrow> (hp @ [propagation_inject active (hp ! a)], length hp))"
  by (simp add: outgoingHeaders_def alloc_def nth_append split: option.splits)

lemma forwardRequest_cases:
  "forwardRequest axios e active hp serviceUrl path m d hdrs =
     (case axios (sent_config e active hp serviceUrl path m d hdrs) of
        Resolved r \<Rightarrow>
          \<lparr>fr_heap = fst (outgoingHeaders active hp hdrs),
           fr_span = \<lparr>span_name = ''forward '' @ path,
             span_events = [SetAttribute ''http.status_code'' (JNum (int (resp_status r))), SpanEnd]\<rparr>,
           fr_sent = sent_config e active hp serviceUrl path m d hdrs,
           fr_result = Inr (resp_data r)\<rparr>
      | Rejected err \<Rightarrow>
          \<lparr>fr_heap = fst (outgoingHeaders active hp hdrs),
           fr_span = \<lparr>span_name = ''forward '' @ path,
             span_events = [RecordException err, SetAttribute ''error'' (JBool True), SpanEnd]\<rparr>,
           fr_sent = sent_config e active hp serviceUrl path m d hdrs,
           fr_result = Inl err\<rparr>)"
  by (simp add: forwardRequest_def sent_config_def Let_def startSpan_def setAttribute_def
      recordException_def span_end_def split: prod.splits axios_outcome.splits)

lemma fr_sent_forwardRequest:
  "fr_sent (forwardRequest axios e active hp serviceUrl path m d hdrs) =
     sent_config e active hp serviceUrl path m d hdrs"
  by (simp add: forwardRequest_cases split: axios_outcome.splits)

lemma fr_heap_forwardRequest:
  "fr_heap (forwardRequest axios e active hp serviceUrl path m d hdrs) =
     fst (outgoingHeaders active hp hdrs)"
  by (simp add: forwardRequest_cases split: axios_outcome.splits)

lemmas handler_defs =
  get_health_def post_api_claims_def get_forward_def get_api_claims_id_def get_api_claims_def
  get_api_policy_def get_api_policy_coverage_def get_api_investments_def
  get_api_chaos_status_def post_api_chaos_toggle_def

lemmas response_defs = ServerResponse_def res_json_def res_status_def status_or_503_def

lemma gw_response_middleware:
  "gw_response (metrics_middleware active start now req res nxt) = h_response (nxt req res)"
  by (simp add: metrics_middleware_def Let_def split: prod.splits)

lemma gw_metrics_middleware:
  "gw_metrics (metrics_middleware active start now req res nxt) =
     fst (on_finish start now req (h_response (nxt req res)))"
  by (simp add: metrics_middleware_def Let_def split: prod.splits)

lemma gw_response_gateway:
  "gw_response (gateway axios e active start now isoTime r req) =
     h_response (dispatch axios e active isoTime r req ServerResponse)"
  by (simp add: gateway_def gw_response_middleware)

lemma gw_metrics_gateway:
  "gw_metrics (gateway axios e active start now isoTime r req) =
     fst (on_finish start now req (h_response (dispatch axios e active isoTime r req ServerResponse)))"
  by (simp add: gateway_def gw_metrics_middleware)

lemma on_finish_metrics:
  "fst (on_finish start now req res) =
     [CounterAdd requestCounter 1
        \<lparr>lbl_method = req_method req, lbl_route = req_path req,
         lbl_status = toString (statusCode res)\<rparr>,
      HistogramRecord requestDuration (now - start)
        \<lparr>lbl_method = req_method req, lbl_route = req_path req,
         lbl_status = toString (statusCode res)\<rparr>]
     @ (if 400 \<le> statusCode res
        then [CounterAdd errorCounter 1
                \<lparr>lbl_method = req_method req, lbl_route = req_path req,
                 lbl_status = toString (statusCode res)\<rparr>]
        else [])"
  by (simp add: on_finish_def Let_def)

lemma on_finish_emissions:
  "emissions requestCounter (fst (on_finish start now req res)) = 1"
  "emissions requestDuration (fst (on_finish start now req res)) = 1"
  "emissions errorCounter (fst (on_finish start now req res)) =
     (if 400 \<le> statusCode res then 1 else 0)"
  by (simp_all add: on_finish_metrics emissions_def)

lemma parseInt_undefined: "parseInt ''undefined'' = NaN"
  by (simp add: parseInt_def radixDigit_def digitValue_def StrWhiteSpaceChar_def)




lemma inject_eq: "inject ctx h = h(trace_header \<mapsto> trace_header_value ctx)"
  by (simp add: inject_def outgoingHeaders_eq propagation_inject_def)


lemma app_reaches_middleware:
  "in_method i \<noteq> ''OPTIONS'' \<Longrightarrow> in_body i = BodyParsed b \<Longrightarrow>
   app axios e active start now isoTime r i =
     Handled (metrics_middleware active start now
       \<lparr>req_method = in_method i, req_path = in_path i, req_headers = in_headers i, req_body = b\<rparr>
       ServerResponse (dispatch axios e active isoTime r))"
  by (simp add: app_def gateway_def)

section \<open>The forwarder\<close>

text \<open>
  C1, as amended. When axios resolves the outbound call with a response, of whatever
  status, \<^verbatim>\<open>forwardRequest\<close> records the numeric status on its span, ends the span
  without marking it errored, and returns the response's data unchanged. When axios
  rejects, also with a rejection that carries the downstream's response (what axios does
  for a status outside 200..299), \<^verbatim>\<open>forwardRequest\<close> takes its error path: it records
  the exception, sets \<^verbatim>\<open>error\<close>, ends the span and rethrows. For a \<^verbatim>\<open>GET\<close> request
  to \<^verbatim>\<open>/api/claims/:id\<close> and a rejection carrying a response with an error status
  (400 to 599, such as 404), the gateway responds with that status and the fixed body
  \<^verbatim>\<open>{"error":"Claims service unavailable"}\<close>.
\<close>

theorem forwardRequest_outcomes:
  "(axios (fr_sent (forwardRequest axios e active hp serviceUrl path m d hdrs)) = Resolved r \<longrightarrow>
      fr_result (forwardRequest axios e active hp serviceUrl path m d hdrs) = Inr (resp_data r) \<and>
      span_events (fr_span (forwardRequest axios e active hp serviceUrl path m d hdrs)) =
        [SetAttribute ''http.status_code'' (JNum (int (resp_status r))), SpanEnd]) \<and>
   (axios (fr_sent (forwardRequest axios e active hp serviceUrl path m d hdrs)) = Rejected err \<longrightarrow>
      fr_result (forwardRequest axios e active hp serviceUrl path m d hdrs) = Inl err \<and>
      span_events (fr_span (forwardRequest axios e active hp serviceUrl path m d hdrs)) =
        [RecordException err, SetAttribute ''error'' (JBool True), SpanEnd]) \<and>
   (err_response err = Some r \<and> 400 \<le> resp_status r \<and> resp_status r < 600 \<and>
    req_method req = ''GET'' \<longrightarrow>
      gw_response (gateway (\<lambda>c. Rejected err) e active start now isoTime (GetClaimById ident) req) =
        \<lparr>statusCode = resp_status r,
         res_body = JObj [(''error'', JStr ''Claims service unavailable'')]\<rparr>)"
  unfolding fr_sent_forwardRequest
  by (simp add: forwardRequest_cases gw_response_gateway handler_defs response_defs)

theorem forwardRequest_outcomes_witness:
  "fr_result (forwardRequest (\<lambda>c. Resolved created_C9) Map.empty None [] ''http://localhost:3001''
      ''/claims'' ''POST'' JNull None) = Inr (JObj [(''claimId'', JStr ''C9'')]) \<and>
   span_events (fr_span (forwardRequest (\<lambda>c. Resolved created_C9) Map.empty None []
      ''http://localhost:3001'' ''/claims'' ''POST'' JNull None)) =
     [SetAttribute ''http.status_code'' (JNum 201), SpanEnd] \<and>
   fr_result (forwardRequest (\<lambda>c. Rejected not_found_404) Map.empty None [] ''http://localhost:3001''
      ''/claims/UNKNOWN'' ''GET'' JNull None) = Inl not_found_404 \<and>
   span_events (fr_span (forwardRequest (\<lambda>c. Rejected not_found_404) Map.empty None []
      ''http://localhost:3001'' ''/claims/UNKNOWN'' ''GET'' JNull None)) =
     [RecordException not_found_404, SetAttribute ''error'' (JBool True), SpanEnd] \<and>
   req_method (get_request ''/api/claims/UNKNOWN'') = ''GET'' \<and>
   gw_response (gateway (\<lambda>c. Rejected not_found_404) Map.empty None 0 12
      ''2026-01-01T00:00:00.000Z'' (GetClaimById ''UNKNOWN'') (get_request ''/api/claims/UNKNOWN'')) =
     \<lparr>statusCode = 404, res_body = JObj [(''error'', JStr ''Claims service unavailable'')]\<rparr>"
  using
    forwardRequest_outcomes [where axios = "\<lambda>c. Resolved created_C9" and r = created_C9
      and e = Map.empty and active = None and hp = "[]" and serviceUrl = "''http://localhost:3001''"
      and path = "''/claims''" and m = "''POST''" and d = JNull and hdrs = None]
    forwardRequest_outcomes [where axios = "\<lambda>c. Rejected not_found_404" and err = not_found_404
      and r = "\<lparr>resp_status = 404, resp_data = JObj [(''error'', JStr ''not found'')]\<rparr>"
      and e = Map.empty and active = None and hp = "[]" and serviceUrl = "''http://localhost:3001''"
      and path = "''/claims/UNKNOWN''" and m = "''GET''" and d = JNull and hdrs = None
      and start = 0 and now = 12 and isoTime = "''2026-01-01T00:00:00.000Z''"
      and ident = "''UNKNOWN''" and req = "get_request ''/api/claims/UNKNOWN''"]
  by (simp add: created_C9_def not_found_404_def get_request_def)

text \<open>
  C1 as stated fails: the Claims backend answers \<^verbatim>\<open>GET /claims/UNKNOWN\<close> with 404 and
  the body \<^verbatim>\<open>{"error":"not found"}\<close>, axios rejects with an error carrying that
  response, and \<^verbatim>\<open>forwardRequest\<close> takes the error path although the backend
  responded: the status is not recorded on the span, and the body the gateway sends is
  not the backend's.
\<close>

theorem downstream_404_counterexample:
  "err_response not_found_404 =
     Some \<lparr>resp_status = 404, resp_data = JObj [(''error'', JStr ''not found'')]\<rparr> \<and>
   fr_result (forwardRequest (\<lambda>c. Rejected not_found_404) Map.empty None [] ''http://localhost:3001''
      ''/claims/UNKNOWN'' ''GET'' JNull None) = Inl not_found_404 \<and>
   SetAttribute ''http.status_code'' (JNum 404) \<notin>
     set (span_events (fr_span (forwardRequest (\<lambda>c. Rejected not_found_404) Map.empty None []
       ''http://localhost:3001'' ''/claims/UNKNOWN'' ''GET'' JNull None))) \<and>
   res_body (gw_response (gateway (\<lambda>c. Rejected not_found_404) Map.empty None 0 12
      ''2026-01-01T00:00:00.000Z'' (GetClaimById ''UNKNOWN'') (get_request ''/api/claims/UNKNOWN'')))
     \<noteq> JObj [(''error'', JStr ''not found'')]"
  by (simp add: gw_response_gateway handler_defs response_defs forwardRequest_cases not_found_404_def)

text \<open>
  C2, as amended. For \<^verbatim>\<open>POST /api/claims\<close> whose forward resolves with downstream
  status 201 and body \<^verbatim>\<open>{"claimId":"C9"}\<close>, the gateway responds with status 200
  (\<^verbatim>\<open>res.json\<close> sends the response object's default status; the downstream status is
  not relayed) and the body \<^verbatim>\<open>{"claimId":"C9"}\<close>; exactly one request-counter
  increment and one duration observation are recorded, with status label \<^verbatim>\<open>"200"\<close>,
  and the error counter is not incremented.
\<close>

theorem post_claims_success_200:
  "gw_response (gateway (\<lambda>c. Resolved created_C9) e active start now isoTime PostClaims req) =
     \<lparr>statusCode = 200, res_body = JObj [(''claimId'', JStr ''C9'')]\<rparr> \<and>
   gw_metrics (gateway (\<lambda>c. Resolved created_C9) e active start now isoTime PostClaims req) =
     [CounterAdd requestCounter 1
        \<lparr>lbl_method = req_method req, lbl_route = req_path req, lbl_status = ''200''\<rparr>,
      HistogramRecord requestDuration (now - start)
        \<lparr>lbl_method = req_method req, lbl_route = req_path req, lbl_status = ''200''\<rparr>]"
  by (simp add: gw_response_gateway gw_metrics_gateway on_finish_metrics handler_defs response_defs
      forwardRequest_cases created_C9_def toString.simps)

text \<open>
  C2 as stated fails at the spec's own scenario: the response status is not 201, and no
  request-counter increment carries the status label \<^verbatim>\<open>"201"\<close>.
\<close>

theorem post_claims_201_counterexample:
  "statusCode (gw_response (gateway (\<lambda>c. Resolved created_C9) Map.empty None 0 12
      ''2026-01-01T00:00:00.000Z'' PostClaims claim_request)) \<noteq> 201 \<and>
   CounterAdd requestCounter 1
     \<lparr>lbl_method = ''POST'', lbl_route = ''/api/claims'', lbl_status = ''201''\<rparr>
     \<notin> set (gw_metrics (gateway (\<lambda>c. Resolved created_C9) Map.empty None 0 12
      ''2026-01-01T00:00:00.000Z'' PostClaims claim_request))"
  by (simp add: gw_response_gateway gw_metrics_gateway on_finish_metrics handler_defs response_defs
      forwardRequest_cases created_C9_def claim_request_def toString.simps)

text \<open>
  C3 at its failing input: the chaos controller answers \<^verbatim>\<open>GET /chaos/status\<close> with
  500, and the gateway responds 503, not the downstream's status. The sibling handler of
  \<^verbatim>\<open>GET /api/claims\<close> relays the 500 for the same rejection.
\<close>

theorem chaos_status_500_gives_503:
  "gw_response (gateway (\<lambda>c. Rejected server_error_500) Map.empty None 0 12
      ''2026-01-01T00:00:00.000Z'' ChaosStatus (get_request ''/api/chaos/status'')) =
     \<lparr>statusCode = 503, res_body = JObj [(''error'', JStr ''Chaos controller unavailable'')]\<rparr> \<and>
   gw_response (gateway (\<lambda>c. Rejected server_error_500) Map.empty None 0 12
      ''2026-01-01T00:00:00.000Z'' ChaosToggle claim_request) =
     \<lparr>statusCode = 503, res_body = JObj [(''error'', JStr ''Chaos controller unavailable'')]\<rparr> \<and>
   gw_response (gateway (\<lambda>c. Rejected server_error_500) Map.empty None 0 12
      ''2026-01-01T00:00:00.000Z'' GetClaims (get_request ''/api/claims'')) =
     \<lparr>statusCode = 500, res_body = JObj [(''error'', JStr ''Claims service unavailable'')]\<rparr>"
  by (simp add: gw_response_gateway handler_defs response_defs forwardRequest_cases
      server_error_500_def)

text \<open>
  C4. On every exit path of \<^verbatim>\<open>forwardRequest\<close>, whether axios resolves or rejects
  with any error, the span of the forward call is ended exactly once, and the end is the
  last call made on the span.
\<close>

theorem forwardRequest_span_ended_once:
  "ends (fr_span (forwardRequest axios e active hp serviceUrl path m d hdrs)) = 1 \<and>
   last (span_events (fr_span (forwardRequest axios e active hp serviceUrl path m d hdrs))) = SpanEnd"
  by (simp add: forwardRequest_cases ends_def split: axios_outcome.splits)


section \<open>The metrics middleware\<close>

text \<open>
  C5, as amended. For every inbound request that reaches the metrics middleware (one
  that \<^verbatim>\<open>cors()\<close> or \<^verbatim>\<open>express.json()\<close> has not answered before), whatever the rest
  of the chain (\<^verbatim>\<open>nxt\<close>) responds: the metric emissions of the request are the
  request-counter increment by 1, the duration observation of the elapsed time and,
  when the status is at least 400, the error-counter increment by 1, in this order and
  nothing else; all of them carry the one label triple built, once, from the request's
  method and path and the status code of the response as sent.
\<close>

theorem metrics_one_label_triple_once:
  assumes "g = metrics_middleware active start now req res nxt"
    and "l = \<lparr>lbl_method = req_method req, lbl_route = req_path req,
              lbl_status = toString (statusCode (gw_response g))\<rparr>"
  shows "gw_metrics g =
           [CounterAdd requestCounter 1 l, HistogramRecord requestDuration (now - start) l]
           @ (if 400 \<le> statusCode (gw_response g) then [CounterAdd errorCounter 1 l] else []) \<and>
         (\<forall>m \<in> set (gw_metrics g). event_labels m = l) \<and>
         emissions requestCounter (gw_metrics g) = 1 \<and>
         emissions requestDuration (gw_metrics g) = 1 \<and>
         emissions errorCounter (gw_metrics g) \<le> 1"
proof -
  have ms: "gw_metrics g =
      [CounterAdd requestCounter 1 l, HistogramRecord requestDuration (now - start) l]
      @ (if 400 \<le> statusCode (gw_response g) then [CounterAdd errorCounter 1 l] else [])"
    by (simp add: assms gw_metrics_middleware gw_response_middleware on_finish_metrics)
  show ?thesis
    unfolding ms by (simp add: emissions_def)
qed

theorem metrics_one_label_triple_once_witness:
  "gw_metrics (gateway (\<lambda>c. Rejected not_found_404) Map.empty None 0 12
      ''2026-01-01T00:00:00.000Z'' (GetClaimById ''UNKNOWN'') (get_request ''/api/claims/UNKNOWN'')) =
     [CounterAdd requestCounter 1
        \<lparr>lbl_method = ''GET'', lbl_route = ''/api/claims/UNKNOWN'', lbl_status = ''404''\<rparr>,
      HistogramRecord requestDuration 12
        \<lparr>lbl_method = ''GET'', lbl_route = ''/api/claims/UNKNOWN'', lbl_status = ''404''\<rparr>,
      CounterAdd errorCounter 1
        \<lparr>lbl_method = ''GET'', lbl_route = ''/api/claims/UNKNOWN'', lbl_status = ''404''\<rparr>] \<and>
   emissions requestCounter (gw_metrics (gateway (\<lambda>c. Rejected not_found_404) Map.empty None 0 12
      ''2026-01-01T00:00:00.000Z'' (GetClaimById ''UNKNOWN'') (get_request ''/api/claims/UNKNOWN''))) = 1 \<and>
   emissions requestDuration (gw_metrics (gateway (\<lambda>c. Rejected not_found_404) Map.empty None 0 12
      ''2026-01-01T00:00:00.000Z'' (GetClaimById ''UNKNOWN'') (get_request ''/api/claims/UNKNOWN''))) = 1"
proof -
  let ?g = "gateway (\<lambda>c. Rejected not_found_404) Map.empty None 0 12
      ''2026-01-01T00:00:00.000Z'' (GetClaimById ''UNKNOWN'') (get_request ''/api/claims/UNKNOWN'')"
  have g: "?g = metrics_middleware None 0 12 (get_request ''/api/claims/UNKNOWN'') ServerResponse
      (dispatch (\<lambda>c. Rejected not_found_404) Map.empty None ''2026-01-01T00:00:00.000Z''
         (GetClaimById ''UNKNOWN''))"
    by (simp add: gateway_def)
  have status: "statusCode (gw_response ?g) = 404"
    by (simp add: gw_response_gateway handler_defs response_defs forwardRequest_cases
        not_found_404_def)
  have str: "toString 404 = ''404''"
    by (simp add: toString.simps)
  have l: "\<lparr>lbl_method = ''GET'', lbl_route = ''/api/claims/UNKNOWN'', lbl_status = ''404''\<rparr> =
      \<lparr>lbl_method = req_method (get_request ''/api/claims/UNKNOWN''),
       lbl_route = req_path (get_request ''/api/claims/UNKNOWN''),
       lbl_status = toString (statusCode (gw_response ?g))\<rparr>"
    unfolding status str by (simp add: get_request_def)
  show ?thesis
    using metrics_one_label_triple_once [OF g l]
    by (simp add: status emissions_def)
qed

text \<open>
  C5 as stated fails for a completed request that does not reach the middleware:
  \<^verbatim>\<open>POST /api/claims\<close> with a malformed JSON body is answered 400 by
  \<^verbatim>\<open>express.json()\<close>, and no metric is emitted for it, so the request counter is not
  incremented once.
\<close>

theorem malformed_json_no_metrics_counterexample:
  "outcome_status (app (\<lambda>c. Resolved created_C9) Map.empty None 0 12
      ''2026-01-01T00:00:00.000Z'' PostClaims malformed_claim) = 400 \<and>
   outcome_metrics (app (\<lambda>c. Resolved created_C9) Map.empty None 0 12
      ''2026-01-01T00:00:00.000Z'' PostClaims malformed_claim) = [] \<and>
   emissions requestCounter (outcome_metrics (app (\<lambda>c. Resolved created_C9) Map.empty None 0 12
      ''2026-01-01T00:00:00.000Z'' PostClaims malformed_claim)) \<noteq> 1"
  by (simp add: app_def malformed_claim_def emissions_def)

text \<open>
  C6, as amended. For every inbound request that reaches the metrics middleware (one
  that \<^verbatim>\<open>cors()\<close> or \<^verbatim>\<open>express.json()\<close> has not answered before), the emissions on
  the error counter are one increment by 1, with the request's label triple, when the
  status code of the response sent to the client is at least 400, and none otherwise.
\<close>

theorem error_counter_iff_status_ge_400:
  assumes "g = metrics_middleware active start now req res nxt"
    and "l = \<lparr>lbl_method = req_method req, lbl_route = req_path req,
              lbl_status = toString (statusCode (gw_response g))\<rparr>"
  shows "filter (\<lambda>m. event_instrument m = errorCounter) (gw_metrics g) =
           (if 400 \<le> statusCode (gw_response g) then [CounterAdd errorCounter 1 l] else []) \<and>
         (CounterAdd errorCounter 1 l \<in> set (gw_metrics g) \<longleftrightarrow> 400 \<le> statusCode (gw_response g))"
  by (simp add: assms gw_metrics_middleware gw_response_middleware on_finish_metrics)

theorem error_counter_iff_status_ge_400_witness:
  "filter (\<lambda>m. event_instrument m = errorCounter)
     (gw_metrics (gateway (\<lambda>c. Rejected not_found_404) Map.empty None 0 12
        ''2026-01-01T00:00:00.000Z'' (GetClaimById ''UNKNOWN'') (get_request ''/api/claims/UNKNOWN''))) =
     [CounterAdd errorCounter 1
        \<lparr>lbl_method = ''GET'', lbl_route = ''/api/claims/UNKNOWN'', lbl_status = ''404''\<rparr>] \<and>
   statusCode (gw_response (gateway (\<lambda>c. Rejected not_found_404) Map.empty None 0 12
      ''2026-01-01T00:00:00.000Z'' (GetClaimById ''UNKNOWN'') (get_request ''/api/claims/UNKNOWN''))) = 404 \<and>
   filter (\<lambda>m. event_instrument m = errorCounter)
     (gw_metrics (gateway (\<lambda>c. Resolved created_C9) Map.empty None 0 12
        ''2026-01-01T00:00:00.000Z'' PostClaims claim_request)) = [] \<and>
   statusCode (gw_response (gateway (\<lambda>c. Resolved created_C9) Map.empty None 0 12
      ''2026-01-01T00:00:00.000Z'' PostClaims claim_request)) = 200"
proof -
  let ?g = "gateway (\<lambda>c. Rejected not_found_404) Map.empty None 0 12
      ''2026-01-01T00:00:00.000Z'' (GetClaimById ''UNKNOWN'') (get_request ''/api/claims/UNKNOWN'')"
  let ?h = "gateway (\<lambda>c. Resolved created_C9) Map.empty None 0 12
      ''2026-01-01T00:00:00.000Z'' PostClaims claim_request"
  have g: "?g = metrics_middleware None 0 12 (get_request ''/api/claims/UNKNOWN'') ServerResponse
      (dispatch (\<lambda>c. Rejected not_found_404) Map.empty None ''2026-01-01T00:00:00.000Z''
         (GetClaimById ''UNKNOWN''))"
    by (simp add: gateway_def)
  have h: "?h = metrics_middleware None 0 12 claim_request ServerResponse
      (dispatch (\<lambda>c. Resolved created_C9) Map.empty None ''2026-01-01T00:00:00.000Z'' PostClaims)"
    by (simp add: gateway_def)
  have sg: "statusCode (gw_response ?g) = 404"
    by (simp add: gw_response_gateway handler_defs response_defs forwardRequest_cases
        not_found_404_def)
  have sh: "statusCode (gw_response ?h) = 200"
    by (simp add: gw_response_gateway handler_defs response_defs forwardRequest_cases
        created_C9_def)
  have str: "toString 404 = ''404''"
    by (simp add: toString.simps)
  have l: "\<lparr>lbl_method = ''GET'', lbl_route = ''/api/claims/UNKNOWN'', lbl_status = ''404''\<rparr> =
      \<lparr>lbl_method = req_method (get_request ''/api/claims/UNKNOWN''),
       lbl_route = req_path (get_request ''/api/claims/UNKNOWN''),
       lbl_status = toString (statusCode (gw_response ?g))\<rparr>"
    unfolding sg str by (simp add: get_request_def)
  show ?thesis
    using error_counter_iff_status_ge_400 [OF g l] error_counter_iff_status_ge_400 [OF h refl]
    by (simp add: sg sh)
qed

text \<open>
  C6 as stated fails for a completed request that does not reach the middleware:
  \<^verbatim>\<open>POST /api/claims\<close> with a malformed JSON body is answered with status 400, and the
  error counter is not incremented.
\<close>

theorem malformed_json_400_no_error_counter_counterexample:
  "400 \<le> outcome_status (app (\<lambda>c. Resolved created_C9) Map.empty None 0 12
      ''2026-01-01T00:00:00.000Z'' PostClaims malformed_claim) \<and>
   emissions errorCounter (outcome_metrics (app (\<lambda>c. Resolved created_C9) Map.empty None 0 12
      ''2026-01-01T00:00:00.000Z'' PostClaims malformed_claim)) = 0"
  by (simp add: app_def malformed_claim_def emissions_def)

section \<open>Trace context injection\<close>

text \<open>
  C7. Injecting a trace context into a header map is idempotent, preserves every header
  other than the trace propagation header, and sets the trace propagation header to the
  serialised context.
\<close>

theorem inject_idempotent:
  "inject ctx (inject ctx h) = inject ctx h \<and>
   (\<forall>k. k \<noteq> trace_header \<longrightarrow> inject ctx h k = h k) \<and>
   inject ctx h trace_header = Some (trace_header_value ctx)"
  by (simp add: inject_eq)

theorem inject_idempotent_witness:
  "inject example_context (inject example_context accept_json) = inject example_context accept_json \<and>
   ''accept'' \<noteq> trace_header \<and>
   inject example_context accept_json ''accept'' = Some ''application/json'' \<and>
   inject example_context accept_json ''traceparent'' =
     Some ''00-0af7651916cd43dd8448eb211c80319c-b7ad6b7169203331-01''"
  using inject_idempotent [of example_context accept_json]
  by (simp add: trace_header_def trace_header_value_def hex2_def example_context_def accept_json_def)

text \<open>
  C10. \<^verbatim>\<open>forwardRequest\<close> never mutates the header object its caller passes: every
  object of the store before the call, the caller's among them, is the same after the
  call, and the trace context is injected into a copy, which is what axios receives.
\<close>

theorem forwardRequest_keeps_callers_headers:
  "take (length hp) (fr_heap (forwardRequest axios e active hp serviceUrl path m d hdrs)) = hp \<and>
   (hdrs = Some a \<and> a < length hp \<longrightarrow>
      fr_heap (forwardRequest axios e active hp serviceUrl path m d hdrs) ! a = hp ! a \<and>
      cfg_headers (fr_sent (forwardRequest axios e active hp serviceUrl path m d hdrs)) =
        propagation_inject active (hp ! a))"
  by (simp add: fr_heap_forwardRequest fr_sent_forwardRequest sent_config_def axios_request_def
      outgoingHeaders_eq nth_append split: option.splits)

theorem forwardRequest_keeps_callers_headers_witness:
  "(0::nat) < length [accept_json] \<and>
   fr_heap (forwardRequest (\<lambda>c. Resolved created_C9) Map.empty (Some example_context) [accept_json]
      ''http://localhost:3001'' ''/claims'' ''GET'' JNull (Some 0)) ! 0 = accept_json \<and>
   cfg_headers (fr_sent (forwardRequest (\<lambda>c. Resolved created_C9) Map.empty (Some example_context)
      [accept_json] ''http://localhost:3001'' ''/claims'' ''GET'' JNull (Some 0))) =
     accept_json(''traceparent'' \<mapsto> ''00-0af7651916cd43dd8448eb211c80319c-b7ad6b7169203331-01'') \<and>
   accept_json ''traceparent'' = None"
  using forwardRequest_keeps_callers_headers
    [where hp = "[accept_json]" and a = 0 and hdrs = "Some 0" and active = "Some example_context"
      and axios = "\<lambda>c. Resolved created_C9" and e = Map.empty
      and serviceUrl = "''http://localhost:3001''" and path = "''/claims''" and m = "''GET''"
      and d = JNull]
  by (simp add: propagation_inject_def trace_header_def trace_header_value_def hex2_def
      example_context_def accept_json_def)

section \<open>The outbound timeout\<close>

text \<open>
  C9. If \<^verbatim>\<open>REQUEST_TIMEOUT_MS\<close> is unset, or set to a string that \<^verbatim>\<open>parseInt\<close> turns
  into NaN or into zero (such as \<^verbatim>\<open>"abc"\<close> or \<^verbatim>\<open>"0"\<close>), every call of
  \<^verbatim>\<open>forwardRequest\<close> gives axios the timeout 10000.
\<close>

theorem request_timeout_default:
  assumes "e ''REQUEST_TIMEOUT_MS'' = None \<or>
           (\<exists>s. e ''REQUEST_TIMEOUT_MS'' = Some s \<and>
                (parseInt s = NaN \<or> parseInt s = NumberValue 0))"
  shows "cfg_timeout (fr_sent (forwardRequest axios e active hp serviceUrl path m d hdrs)) = 10000"
proof -
  from assms have "request_timeout e = 10000"
    by (auto simp: request_timeout_def ToString_def parseInt_undefined)
  then show ?thesis
    by (simp add: fr_sent_forwardRequest sent_config_def axios_request_def)
qed

theorem request_timeout_default_witness:
  "parseInt ''abc'' = NaN \<and> parseInt ''0'' = NumberValue 0 \<and>
   cfg_timeout (fr_sent (forwardRequest (\<lambda>c. Resolved created_C9) Map.empty None []
      ''http://localhost:3001'' ''/claims'' ''GET'' JNull None)) = 10000 \<and>
   cfg_timeout (fr_sent (forwardRequest (\<lambda>c. Resolved created_C9) [''REQUEST_TIMEOUT_MS'' \<mapsto> ''abc'']
      None [] ''http://localhost:3001'' ''/claims'' ''GET'' JNull None)) = 10000 \<and>
   cfg_timeout (fr_sent (forwardRequest (\<lambda>c. Resolved created_C9) [''REQUEST_TIMEOUT_MS'' \<mapsto> ''0'']
      None [] ''http://localhost:3001'' ''/claims'' ''GET'' JNull None)) = 10000"
proof -
  have abc: "parseInt ''abc'' = NaN"
    by (simp add: parseInt_def radixDigit_def digitValue_def StrWhiteSpaceChar_def)
  have zero: "parseInt ''0'' = NumberValue 0"
    by (simp add: parseInt_def radixDigit_def digitValue_def StrWhiteSpaceChar_def mathInt_def)
  show ?thesis
    using abc zero
      request_timeout_default [where e = Map.empty and axios = "\<lambda>c. Resolved created_C9"
        and active = None and hp = "[]" and serviceUrl = "''http://localhost:3001''"
        and path = "''/claims''" and m = "''GET''" and d = JNull and hdrs = None]
      request_timeout_default [where e = "[''REQUEST_TIMEOUT_MS'' \<mapsto> ''abc'']"
        and axios = "\<lambda>c. Resolved created_C9"
        and active = None and hp = "[]" and serviceUrl = "''http://localhost:3001''"
        and path = "''/claims''" and m = "''GET''" and d = JNull and hdrs = None]
      request_timeout_default [where e = "[''REQUEST_TIMEOUT_MS'' \<mapsto> ''0'']"
        and axios = "\<lambda>c. Resolved created_C9"
        and active = None and hp = "[]" and serviceUrl = "''http://localhost:3001''"
        and path = "''/claims''" and m = "''GET''" and d = JNull and hdrs = None]
    by simp
qed

section \<open>The logger\<close>




end
